theory Spec2Isabelle
  imports Complex_Main "HOL-Library.Product_Lexorder" "HOL-Library.Multiset"
begin

section \<open>The cutting optimizer of ST.py\<close>

text \<open>
  The two functions of the core, \<^verbatim>\<open>greedy_cutting_optimization\<close> and
  \<^verbatim>\<open>find_optimal_stock_length\<close>, are embedded as they are written.

  \<^item> Python's unbounded integers are \<open>int\<close>.
  \<^item> A Python \<^verbatim>\<open>dict\<close> with integer keys is the list of its items in insertion order
    (the order a \<^verbatim>\<open>for\<close> over the dict sees); a dict has no key twice, which is the
    predicate \<open>is_dict\<close>.
  \<^item> The pair \<^verbatim>\<open>(result, None)\<close> or \<^verbatim>\<open>(None, message)\<close> the functions return is a sum:
    \<open>Inr result\<close> or \<open>Inl error\<close>. The message is kept as a constructor with the numbers
    the message shows. An exception the code does not catch is an error value too,
    \<open>ZeroDivisionError\<close>, \<open>ValueError\<close> or \<open>TypeError\<close>; \<open>raised\<close> tells the two kinds apart.
  \<^item> Floating point is idealised: \<^verbatim>\<open>math.floor(a / b)\<close> on integers is \<open>a div b\<close> (what
    it is for operands below \<open>2^53\<close>), and a percentage is the exact rational number.
\<close>

type_synonym 'v pydict = "(int \<times> 'v) list"


datatype error =
    OversizedDemand int int
  | InfeasibleDemand
  | NoFeasibleLength
  | ZeroDivisionError
  | ValueError
  | TypeError

fun raised :: "error \<Rightarrow> bool" where
  "raised ZeroDivisionError = True"
| "raised ValueError = True"
| "raised TypeError = True"
| "raised _ = False"

text \<open>\<^verbatim>\<open>d[k] = v\<close>: an existing key keeps its place, a new key goes last.\<close>

fun dict_set :: "'v pydict \<Rightarrow> int \<Rightarrow> 'v \<Rightarrow> 'v pydict" where
  "dict_set [] k v = [(k, v)]"
| "dict_set ((k', v') # d) k v = (if k' = k then (k, v) # d else (k', v') # dict_set d k v)"

text \<open>\<^verbatim>\<open>d1 == d2\<close> on dicts: the same items, whatever the insertion order.\<close>

definition dict_eq :: "'v pydict \<Rightarrow> 'v pydict \<Rightarrow> bool" where
  "dict_eq d1 d2 = (set d1 = set d2)"

text \<open>The working record \<^verbatim>\<open>{'length': length, 'quantity': qty}\<close>.\<close>

record demand =
  length_d :: int
  quantity :: int

text \<open>An entry of \<^verbatim>\<open>cutting_plans\<close>, the list the loop builds.\<close>

record plan =
  pattern :: "int pydict"
  count_p :: int
  utilization_p :: rat
  waste_p :: int

subsection \<open>One stock unit: the inner \<^verbatim>\<open>for demand in demand_list\<close>\<close>

text \<open>
  The loop state is \<open>(remaining_length, current_pattern)\<close> and the records of
  \<open>demand_list\<close>, which the loop updates in place: the function returns the final state
  and the list of the updated records. Dividing by a length of zero raises.
\<close>

definition keep :: "demand \<Rightarrow> error + (int \<times> int pydict \<times> demand list)
    \<Rightarrow> error + (int \<times> int pydict \<times> demand list)" where
  "keep d res = (case res of Inl e \<Rightarrow> Inl e | Inr (r, p, ds) \<Rightarrow> Inr (r, p, d # ds))"

fun fill_unit :: "int \<Rightarrow> int pydict \<Rightarrow> demand list
    \<Rightarrow> error + (int \<times> int pydict \<times> demand list)" where
  "fill_unit remaining_length current_pattern [] = Inr (remaining_length, current_pattern, [])"
| "fill_unit remaining_length current_pattern (d # ds) =
     (if quantity d \<le> 0 \<or> length_d d > remaining_length
      then keep d (fill_unit remaining_length current_pattern ds)
      else if length_d d = 0 then Inl ZeroDivisionError
      else
        let max_possible = remaining_length div length_d d;
            actual_count = min max_possible (quantity d)
        in if actual_count > 0
           then keep (d\<lparr>quantity := quantity d - actual_count\<rparr>)
                  (fill_unit (remaining_length - actual_count * length_d d)
                     (dict_set current_pattern (length_d d) actual_count) ds)
           else keep d (fill_unit remaining_length current_pattern ds))"

subsection \<open>Recording the unit's pattern\<close>

text \<open>\<^verbatim>\<open>next((i for i, plan in enumerate(cutting_plans) if plan['pattern'] == current_pattern), None)\<close>\<close>

fun existing_idx :: "plan list \<Rightarrow> int pydict \<Rightarrow> nat option" where
  "existing_idx [] current_pattern = None"
| "existing_idx (p # ps) current_pattern =
     (if dict_eq (pattern p) current_pattern then Some 0
      else map_option Suc (existing_idx ps current_pattern))"

definition add_plan :: "plan list \<Rightarrow> int pydict \<Rightarrow> rat \<Rightarrow> int \<Rightarrow> plan list" where
  "add_plan cutting_plans current_pattern util remaining_length =
     (case existing_idx cutting_plans current_pattern of
        Some i \<Rightarrow> cutting_plans[i := (cutting_plans ! i)\<lparr>count_p := count_p (cutting_plans ! i) + 1\<rparr>]
      | None \<Rightarrow> cutting_plans @
          [\<lparr>pattern = current_pattern, count_p = 1, utilization_p = util,
            waste_p = remaining_length\<rparr>])"

subsection \<open>The \<^verbatim>\<open>while any(d['quantity'] > 0 for d in demand_list)\<close> loop\<close>

definition remaining_total :: "demand list \<Rightarrow> nat" where
  "remaining_total ds = sum_list (map (\<lambda>d. nat (quantity d)) ds)"

lemma fill_unit_total:
  "fill_unit r p ds = Inr (r', p', ds') \<Longrightarrow>
     remaining_total ds' \<le> remaining_total ds \<and>
     (p' \<noteq> p \<longrightarrow> remaining_total ds' < remaining_total ds)"
proof (induction ds arbitrary: r p r' p' ds')
  case Nil
  then show ?case by simp
next
  case (Cons d ds)
  show ?case
  proof (cases "quantity d \<le> 0 \<or> length_d d > r \<or> \<not> min (r div length_d d) (quantity d) > 0")
    case True
    with Cons.prems obtain ds0 where s: "fill_unit r p ds = Inr (r', p', ds0)" and d: "ds' = d # ds0"
      by (auto simp: keep_def Let_def split: if_splits sum.splits)
    from Cons.IH[OF s] d show ?thesis by (simp add: remaining_total_def)
  next
    case False
    define c where "c = min (r div length_d d) (quantity d)"
    from False have c: "c > 0" "c \<le> quantity d" by (auto simp: c_def)
    from False Cons.prems obtain ds0 where
      s: "fill_unit (r - c * length_d d) (dict_set p (length_d d) c) ds = Inr (r', p', ds0)"
      and d: "ds' = d\<lparr>quantity := quantity d - c\<rparr> # ds0"
      by (auto simp: keep_def Let_def c_def split: if_splits sum.splits)
    from Cons.IH[OF s] have "remaining_total ds0 \<le> remaining_total ds" by simp
    moreover from c have "nat (quantity d - c) < nat (quantity d)" by simp
    moreover have "remaining_total ds' = nat (quantity d - c) + remaining_total ds0"
      using d by (simp add: remaining_total_def)
    moreover have "remaining_total (d # ds) = nat (quantity d) + remaining_total ds"
      by (simp add: remaining_total_def)
    ultimately show ?thesis by linarith
  qed
qed

function greedy_loop :: "int \<Rightarrow> demand list \<Rightarrow> plan list \<Rightarrow> int \<Rightarrow> int
    \<Rightarrow> error + (demand list \<times> plan list \<times> int \<times> int)" where
  "greedy_loop stock_length demand_list cutting_plans total_stock_used total_used_length =
     (if \<not> list_ex (\<lambda>d. quantity d > 0) demand_list
      then Inr (demand_list, cutting_plans, total_stock_used, total_used_length)
      else
        (case fill_unit stock_length [] demand_list of
           Inl e \<Rightarrow> Inl e
         | Inr (remaining_length, current_pattern, demand_list') \<Rightarrow>
             if current_pattern = [] then Inl InfeasibleDemand
             else if stock_length = 0 then Inl ZeroDivisionError
             else
               let pattern_used_length = stock_length - remaining_length;
                   util = (of_int pattern_used_length / of_int stock_length) * 100
               in greedy_loop stock_length demand_list'
                    (add_plan cutting_plans current_pattern util remaining_length)
                    (total_stock_used + 1) (total_used_length + pattern_used_length)))"
  by pat_completeness auto
termination
proof (relation "measure (\<lambda>(s, ds, ps, n, u). remaining_total ds)")
  show "wf (measure (\<lambda>(s, ds, ps, n, u). remaining_total ds))" by simp
next
  fix stock_length :: int and demand_list :: "demand list" and cutting_plans :: "plan list"
    and total_stock_used total_used_length :: int
    and x2 :: "int \<times> int pydict \<times> demand list" and remaining_length :: int
    and y :: "int pydict \<times> demand list" and current_pattern :: "int pydict"
    and demand_list' :: "demand list" and xa xb
  assume "fill_unit stock_length [] demand_list = Inr x2" "(remaining_length, y) = x2"
    "(current_pattern, demand_list') = y" "current_pattern \<noteq> []"
  then have "fill_unit stock_length [] demand_list = Inr (remaining_length, current_pattern, demand_list')"
    by simp
  from fill_unit_total[OF this] \<open>current_pattern \<noteq> []\<close>
  have "remaining_total demand_list' < remaining_total demand_list" by simp
  then show "((stock_length, demand_list', add_plan cutting_plans current_pattern xb remaining_length,
        total_stock_used + 1, total_used_length + xa),
       (stock_length, demand_list, cutting_plans, total_stock_used, total_used_length))
      \<in> measure (\<lambda>(s, ds, ps, n, u). remaining_total ds)"
    by simp
qed

declare greedy_loop.simps [simp del]

subsection \<open>Rendering numbers\<close>

text \<open>
  \<^verbatim>\<open>str(n)\<close> of an integer and \<^verbatim>\<open>f"{x:.2f}"\<close> of a percentage. A string is the list of its
  code points; all of them are ASCII but the multiplication sign of the pattern
  description, U+00D7. The format rounds to the nearest hundredth, a tie to the even one.
\<close>

definition digit_char :: "nat \<Rightarrow> char" where
  "digit_char d = ''0123456789'' ! d"

fun str_nat :: "nat \<Rightarrow> string" where
  "str_nat n = (if n < 10 then [digit_char n] else str_nat (n div 10) @ [digit_char (n mod 10)])"

declare str_nat.simps [simp del]

definition str_int :: "int \<Rightarrow> string" where
  "str_int i = (if i < 0 then CHR ''-'' # str_nat (nat (- i)) else str_nat (nat i))"

fun join :: "string \<Rightarrow> string list \<Rightarrow> string" where
  "join sep [] = []"
| "join sep [x] = x"
| "join sep (x # y # ys) = x @ sep @ join sep (y # ys)"

definition round_half_even :: "rat \<Rightarrow> int" where
  "round_half_even x =
     (let f = \<lfloor>x\<rfloor>; r = x - of_int f
      in if r < 1 / 2 then f else if 1 / 2 < r then f + 1 else if even f then f else f + 1)"

definition format_2f :: "rat \<Rightarrow> string" where
  "format_2f x =
     (let n = nat (round_half_even (\<bar>x\<bar> * 100))
      in (if x < 0 then ''-'' else []) @ str_nat (n div 100) @ ''.'' @
         [digit_char (n mod 100 div 10), digit_char (n mod 10)])"

subsection \<open>The result of the optimizer\<close>

text \<open>An entry of \<^verbatim>\<open>formatted_plans\<close>, and the dict the function returns.\<close>

record formatted_plan =
  pattern_desc :: string
  count_f :: int
  utilization_f :: string
  waste_f :: int

record result =
  cutting_plans :: "formatted_plan list"
  total_stock_used :: int
  total_utilization :: string
  total_waste :: int

definition format_plan :: "plan \<Rightarrow> formatted_plan" where
  "format_plan p =
     \<lparr>pattern_desc = join '' + ''
        (map (\<lambda>(len, cnt). str_int cnt @ [CHR 0xD7] @ str_int len @ ''mm'') (pattern p)),
      count_f = count_p p,
      utilization_f = format_2f (utilization_p p) @ ''%'',
      waste_f = waste_p p\<rparr>"

subsection \<open>\<^verbatim>\<open>greedy_cutting_optimization\<close>\<close>

text \<open>
  \<open>demand_list_of\<close> is the working copy: one fresh record per item of \<open>demands\<close>, sorted by
  \<^verbatim>\<open>-x['length']\<close> (\<open>sort_key\<close> is stable, as Python's sort is). \<open>run_loop\<close> is the state
  the loop ends in: the records, \<^verbatim>\<open>cutting_plans\<close>, \<^verbatim>\<open>total_stock_used\<close> and
  \<^verbatim>\<open>total_used_length\<close>.
\<close>

definition demand_list_of :: "int pydict \<Rightarrow> demand list" where
  "demand_list_of demands =
     sort_key (\<lambda>x. - length_d x) (map (\<lambda>(len, qty). \<lparr>length_d = len, quantity = qty\<rparr>) demands)"

definition run_loop :: "int \<Rightarrow> int pydict \<Rightarrow> error + (demand list \<times> plan list \<times> int \<times> int)" where
  "run_loop stock_length demands =
     (case find (\<lambda>len. len > stock_length) (map fst demands) of
        Some len \<Rightarrow> Inl (OversizedDemand len stock_length)
      | None \<Rightarrow> greedy_loop stock_length (demand_list_of demands) [] 0 0)"

definition greedy_cutting_optimization :: "int \<Rightarrow> int pydict \<Rightarrow> error + result" where
  "greedy_cutting_optimization stock_length demands =
     (case run_loop stock_length demands of
        Inl e \<Rightarrow> Inl e
      | Inr (demand_list, plans, stock_used, used_length) \<Rightarrow>
          if stock_used * stock_length = 0 then Inl ZeroDivisionError
          else
            let total_util = (of_int used_length / of_int (stock_used * stock_length)) * 100;
                waste_total = stock_used * stock_length - used_length
            in Inr \<lparr>cutting_plans = map format_plan plans,
                    total_stock_used = stock_used,
                    total_utilization = format_2f total_util @ ''%'',
                    total_waste = waste_total\<rparr>)"

subsection \<open>\<^verbatim>\<open>find_optimal_stock_length\<close>\<close>

text \<open>\<^verbatim>\<open>range(start, stop, step)\<close>: a step of zero raises \<^verbatim>\<open>ValueError\<close>.\<close>

function range_up :: "int \<Rightarrow> int \<Rightarrow> int \<Rightarrow> int list" where
  "range_up start stop step =
     (if 0 < step \<and> start < stop then start # range_up (start + step) stop step else [])"
  by pat_completeness auto
termination
  by (relation "measure (\<lambda>(start, stop, step). nat (stop - start))") auto

function range_down :: "int \<Rightarrow> int \<Rightarrow> int \<Rightarrow> int list" where
  "range_down start stop step =
     (if step < 0 \<and> stop < start then start # range_down (start + step) stop step else [])"
  by pat_completeness auto
termination
  by (relation "measure (\<lambda>(start, stop, step). nat (start - stop))") auto

declare range_up.simps [simp del] range_down.simps [simp del]

definition py_range :: "int \<Rightarrow> int \<Rightarrow> int \<Rightarrow> error + int list" where
  "py_range start stop step =
     (if step = 0 then Inl ValueError
      else if 0 < step then Inr (range_up start stop step)
      else Inr (range_down start stop step))"

text \<open>\<^verbatim>\<open>{'stock_length': length, **result}\<close>\<close>

record search_result = result +
  stock_length :: int

definition with_stock_length :: "int \<Rightarrow> result \<Rightarrow> search_result" where
  "with_stock_length len r = result.extend r (search_result.fields len)"

text \<open>
  The loop over the candidates. \<^verbatim>\<open>demands.copy()\<close> is a dict with the same items. An
  error the optimizer returns drops the candidate; an exception it raises ends the search.
\<close>

fun collect_results :: "int pydict \<Rightarrow> int list \<Rightarrow> search_result list \<Rightarrow> error + search_result list" where
  "collect_results demands [] results = Inr results"
| "collect_results demands (len # lens) results =
     (let demand_copy = demands
      in case greedy_cutting_optimization len demand_copy of
           Inr r \<Rightarrow> collect_results demands lens (results @ [with_stock_length len r])
         | Inl e \<Rightarrow> if raised e then Inl e else collect_results demands lens results)"

text \<open>
  \<^verbatim>\<open>float(x['total_utilization'].strip('%'))\<close>. \<open>py_float\<close> reads the plain decimal
  notation (an optional sign, digits, a point, digits, or digits alone); any other string
  is a \<^verbatim>\<open>ValueError\<close> here.
\<close>

definition strip_char :: "char \<Rightarrow> string \<Rightarrow> string" where
  "strip_char c s = rev (dropWhile (\<lambda>x. x = c) (rev (dropWhile (\<lambda>x. x = c) s)))"

definition digit_val :: "char \<Rightarrow> nat option" where
  "digit_val c = (let k = of_char c :: nat in if 48 \<le> k \<and> k \<le> 57 then Some (k - 48) else None)"

fun parse_nat :: "nat \<Rightarrow> string \<Rightarrow> nat option" where
  "parse_nat acc [] = Some acc"
| "parse_nat acc (c # cs) =
     (case digit_val c of None \<Rightarrow> None | Some d \<Rightarrow> parse_nat (10 * acc + d) cs)"

definition parse_digits :: "string \<Rightarrow> nat option" where
  "parse_digits s = (if s = [] then None else parse_nat 0 s)"

definition py_float :: "string \<Rightarrow> rat option" where
  "py_float s =
     (let neg = (take 1 s = ''-'');
          body = (if neg \<or> take 1 s = ''+'' then drop 1 s else s);
          ip = takeWhile (\<lambda>c. c \<noteq> CHR ''.'') body;
          rest = dropWhile (\<lambda>c. c \<noteq> CHR ''.'') body;
          sign = (if neg then - 1 else 1)
      in case parse_digits ip of
           None \<Rightarrow> None
         | Some i \<Rightarrow>
             if rest = [] then Some (sign * of_nat i)
             else (case parse_digits (drop 1 rest) of
                     None \<Rightarrow> None
                   | Some f \<Rightarrow> Some (sign * (of_nat i + of_nat f / 10 ^ length (drop 1 rest)))))"

definition utilization_value :: "string \<Rightarrow> rat option" where
  "utilization_value s = py_float (strip_char CHR ''%'' s)"

text \<open>The sort key \<^verbatim>\<open>(-float(x['total_utilization'].strip('%')), x['total_stock_used'])\<close>.\<close>

definition sort_key_of :: "search_result \<Rightarrow> (rat \<times> int) option" where
  "sort_key_of x = map_option (\<lambda>v. (- v, total_stock_used x)) (utilization_value (total_utilization x))"

definition find_optimal_stock_length ::
    "int pydict \<Rightarrow> int \<Rightarrow> int \<Rightarrow> int \<Rightarrow> error + search_result list" where
  "find_optimal_stock_length demands min_length max_length step_length =
     (case py_range min_length (max_length + 1) step_length of
        Inl e \<Rightarrow> Inl e
      | Inr lens \<Rightarrow>
          (case collect_results demands lens [] of
             Inl e \<Rightarrow> Inl e
           | Inr results \<Rightarrow>
               if results = [] then Inl NoFeasibleLength
               else if list_ex (\<lambda>x. sort_key_of x = None) results then Inl ValueError
               else Inr (sort_key (\<lambda>x. the (sort_key_of x)) results)))"

subsection \<open>What a pattern and a working list hold\<close>

text \<open>
  The length a pattern cuts from one unit, the number of pieces of one length in a pattern
  (zero when the length is not a key), and the quantity of one length still open in the
  working list.
\<close>

definition pattern_length :: "int pydict \<Rightarrow> int" where
  "pattern_length pat = (\<Sum>(len, cnt)\<leftarrow>pat. len * cnt)"

definition pattern_count :: "int pydict \<Rightarrow> int \<Rightarrow> int" where
  "pattern_count pat len = (\<Sum>(k, cnt)\<leftarrow>pat. if k = len then cnt else 0)"









text \<open>
  What the search collects from a list of candidate lengths, and the percentage the
  optimizer computes for one stock length before it renders it.
\<close>

definition feasible_results :: "int pydict \<Rightarrow> int list \<Rightarrow> search_result list" where
  "feasible_results demands lens =
     concat (map (\<lambda>len. case greedy_cutting_optimization len demands of
                           Inr r \<Rightarrow> [with_stock_length len r] | Inl e \<Rightarrow> []) lens)"


section \<open>Properties\<close>

subsection \<open>One stock unit\<close>











lemma pattern_length_append [simp]:
  "pattern_length (p @ q) = pattern_length p + pattern_length q"
  by (simp add: pattern_length_def)

lemma pattern_count_append [simp]:
  "pattern_count (p @ q) len = pattern_count p len + pattern_count q len"
  by (simp add: pattern_count_def)






lemma greedy_loop_done:
  "\<not> list_ex (\<lambda>d. 0 < quantity d) ds \<Longrightarrow> greedy_loop s ds ps n u = Inr (ds, ps, n, u)"
  by (subst greedy_loop.simps) simp











subsection \<open>The working copy and the result\<close>







subsection \<open>The invariants of the loop\<close>

lemma find_oversized:
  "\<exists>len \<in> set ks. stock < len \<Longrightarrow>
   \<exists>len. find (\<lambda>len. len > stock) ks = Some len \<and> len \<in> set ks \<and> stock < (len::int)"
  by (induction ks) auto

















subsection \<open>Rendering a percentage and reading it back\<close>
















subsection \<open>The length check\<close>

text \<open>
  C2. Whatever the stock length, a demand set with a length above it makes the optimizer
  return the oversized-demand error, which carries the first such length of the dict and
  the stock length. The value is an error, so no plan is returned.
\<close>

theorem oversized_demand_rejected:
  assumes "\<exists>(len, qty) \<in> set demands. stock_len < len"
  shows "\<exists>len. greedy_cutting_optimization stock_len demands = Inl (OversizedDemand len stock_len)
           \<and> find (\<lambda>len. len > stock_len) (map fst demands) = Some len
           \<and> len \<in> fst ` set demands \<and> stock_len < len"
proof -
  from assms have "\<exists>len \<in> set (map fst demands). stock_len < len" by force
  from find_oversized[OF this] obtain len where
    f: "find (\<lambda>len. len > stock_len) (map fst demands) = Some len"
    and m: "len \<in> set (map fst demands)" and g: "stock_len < len" by blast
  from f have "greedy_cutting_optimization stock_len demands = Inl (OversizedDemand len stock_len)"
    by (simp add: greedy_cutting_optimization_def run_loop_def)
  with f m g show ?thesis by auto
qed

theorem oversized_demand_rejected_witness:
  "greedy_cutting_optimization 500 [(600, 1)] = Inl (OversizedDemand 600 500)"
  using oversized_demand_rejected[of "[(600, 1)]" 500] by auto

subsection \<open>Waste\<close>






subsection \<open>Conservation of the demand\<close>



subsection \<open>Progress and termination\<close>





subsection \<open>The search\<close>

lemma with_stock_length_fields [simp]:
  "cutting_plans (with_stock_length len r) = cutting_plans r"
  "total_stock_used (with_stock_length len r) = total_stock_used r"
  "total_utilization (with_stock_length len r) = total_utilization r"
  "total_waste (with_stock_length len r) = total_waste r"
  "stock_length (with_stock_length len r) = len"
  by (simp_all add: with_stock_length_def result.defs search_result.defs)


lemma feasible_results_Cons:
  "feasible_results demands (len # lens) =
     (case greedy_cutting_optimization len demands of
        Inr r \<Rightarrow> [with_stock_length len r] | Inl e \<Rightarrow> []) @ feasible_results demands lens"
  by (simp add: feasible_results_def)

lemma collect_results_Inr:
  "collect_results demands lens acc = Inr res \<Longrightarrow> res = acc @ feasible_results demands lens"
proof (induction lens arbitrary: acc)
  case Nil
  then show ?case by (simp add: feasible_results_def)
next
  case (Cons len lens)
  show ?case
  proof (cases "greedy_cutting_optimization len demands")
    case (Inr r)
    with Cons.prems have "collect_results demands lens (acc @ [with_stock_length len r]) = Inr res"
      by simp
    from Cons.IH[OF this] Inr show ?thesis by (simp add: feasible_results_Cons)
  next
    case (Inl e)
    with Cons.prems have "collect_results demands lens acc = Inr res"
      by (simp split: if_splits)
    from Cons.IH[OF this] Inl show ?thesis by (simp add: feasible_results_Cons)
  qed
qed


lemma range_up_empty: "stop \<le> start \<Longrightarrow> range_up start stop step = []"
  by (subst range_up.simps) simp

lemma optimize_empty: "greedy_cutting_optimization s [] = Inl ZeroDivisionError"
  by (simp add: greedy_cutting_optimization_def run_loop_def demand_list_of_def greedy_loop_done)

text \<open>
  C10. With a step of at least one, a range whose minimum is above its maximum has no
  candidate, and the search returns the no-feasible-length error, whatever the demands.
\<close>

theorem inverted_range_no_feasible:
  assumes "max_length < min_length" and "1 \<le> step_length"
  shows "py_range min_length (max_length + 1) step_length = Inr [] \<and>
         find_optimal_stock_length demands min_length max_length step_length = Inl NoFeasibleLength"
proof -
  from assms have "py_range min_length (max_length + 1) step_length = Inr []"
    by (simp add: py_range_def range_up_empty)
  then show ?thesis by (simp add: find_optimal_stock_length_def)
qed

theorem inverted_range_no_feasible_witness:
  "py_range 1200 (1000 + 1) 100 = Inr [] \<and>
   find_optimal_stock_length [(355, 10)] 1200 1000 100 = Inl NoFeasibleLength"
proof -
  have h1: "(1000::int) < 1200" by simp
  have h2: "(1::int) \<le> 100" by simp
  from inverted_range_no_feasible[OF h1 h2] show ?thesis .
qed

text \<open>
  C3, as amended. No empty-demand error exists in the two functions. With an empty demand
  set the loop of the optimizer does not run, and the division that computes the total
  utilization raises \<^verbatim>\<open>ZeroDivisionError\<close>, whatever the stock length. The search passes
  that exception on from its first candidate; with a step of zero \<^verbatim>\<open>range\<close> raises
  first, and with no candidate the search returns the no-feasible-length error.
\<close>

theorem empty_demand_raises:
  "greedy_cutting_optimization stock_len [] = Inl ZeroDivisionError \<and>
   find_optimal_stock_length [] min_length max_length step_length =
     (case py_range min_length (max_length + 1) step_length of
        Inl e \<Rightarrow> Inl e
      | Inr [] \<Rightarrow> Inl NoFeasibleLength
      | Inr (len # lens) \<Rightarrow> Inl ZeroDivisionError)"
  by (simp add: optimize_empty find_optimal_stock_length_def split: sum.splits list.splits)

theorem empty_demand_raises_witness:
  "greedy_cutting_optimization 1000 [] = Inl ZeroDivisionError \<and>
   find_optimal_stock_length [] 5 4 1 = Inl NoFeasibleLength"
  using empty_demand_raises[of 1000 5 4 1] by (simp add: py_range_def range_up_empty)

text \<open>
  The claim C3 as stated fails: for the empty demand set at a stock length of 1000, and for
  the search over 1000, 1100, 1200, the call ends in a raised exception, not in a returned
  error value.
\<close>

theorem empty_demand_counterexample:
  "(\<exists>e. greedy_cutting_optimization 1000 [] = Inl e \<and> raised e) \<and>
   (\<exists>e. find_optimal_stock_length [] 1000 1200 100 = Inl e \<and> raised e)"
  by (simp add: optimize_empty find_optimal_stock_length_def py_range_def range_up.simps)

subsection \<open>Ranking\<close>


































subsection \<open>The utilization fields\<close>












end
